theory Spec2Isabelle
  imports Main
begin

section \<open>Documents and collections\<close>

text \<open>
  The backend keeps its data in document collections, one per model, and every route
  handler reads or writes a few of them. A collection is a list of documents in storage
  order. A \<^verbatim>\<open>Date\<close> is its number of milliseconds, and \<^verbatim>\<open>new Date()\<close> is the parameter
  \<open>now\<close> of the handler that reads the clock.
\<close>

type_synonym date = int

subsection \<open>ObjectIds and the texts that name them\<close>

text \<open>
  The store holds ObjectIds; a request names one by a text (\<^verbatim>\<open>req.params.id\<close>,
  \<^verbatim>\<open>req.params.userId\<close>, \<^verbatim>\<open>req.body.postId\<close>, \<^verbatim>\<open>req.body.followedId\<close>). \<open>toString\<close> is
  the text of an ObjectId, 24 hexadecimal digits in lower case. Before it queries or
  saves, the driver casts a text to the ObjectId it spells: a text of 24 hexadecimal
  digits, read without regard to case. A text that is not of this form is taken to fail
  the cast; the CastError is thrown inside the handler's \<^verbatim>\<open>try\<close>. (Older versions of
  the driver also cast a text of twelve bytes, to the ObjectId with those bytes; newer
  ones refuse it, as this cast does.)

  The authenticated user, \<^verbatim>\<open>req.user.userId\<close>, is the ObjectId the server signed into
  the token. Where a handler compares it as a text, the model compares \<open>toString\<close> of it.
\<close>

datatype oid = ObjectId (toString: string)

definition isHexDigit :: "char \<Rightarrow> bool" where
  "isHexDigit c = (c \<in> set ''0123456789abcdefABCDEF'')"

definition toLowerHex :: "char \<Rightarrow> char" where
  "toLowerHex c =
     (if c = CHR ''A'' then CHR ''a'' else if c = CHR ''B'' then CHR ''b''
      else if c = CHR ''C'' then CHR ''c'' else if c = CHR ''D'' then CHR ''d''
      else if c = CHR ''E'' then CHR ''e'' else if c = CHR ''F'' then CHR ''f''
      else c)"

definition castObjectId :: "string \<Rightarrow> oid option" where
  "castObjectId s =
     (if length s = 24 \<and> list_all isHexDigit s then Some (ObjectId (map toLowerHex s))
      else None)"

subsection \<open>The schemas\<close>

text \<open>
  \<^verbatim>\<open>storySchema\<close>: \<open>story_id\<close> is the document's \<^verbatim>\<open>_id\<close>; the other fields carry the
  schema's names.
\<close>

record story =
  story_id :: oid
  userId :: oid
  mediaUrl :: string
  mediaId :: string
  caption :: "string option"
  createdAt :: date
  expiresAt :: date
  isActive :: bool

text \<open>\<^verbatim>\<open>postSchema\<close>, its fields prefixed where a story has a field of the same name.\<close>

record post =
  post_id :: oid
  post_userId :: oid
  post_mediaUrl :: string
  post_mediaId :: string
  post_caption :: "string option"
  hashtags :: "string list"
  post_createdAt :: date

text \<open>\<^verbatim>\<open>notificationSchema\<close>: \<open>notif_userId\<close> is the recipient.\<close>

datatype notification_type = LIKE | COMMENT | FOLLOW | STORY_VIEW

record notification =
  notif_userId :: oid
  notif_type :: notification_type
  fromUserId :: oid
  postId :: "oid option"
  storyId :: "oid option"
  notif_createdAt :: date

text \<open>
  The rows the handlers write into the Like, Follow and StoryView collections:
  \<^verbatim>\<open>new Like({ postId, userId })\<close>, \<^verbatim>\<open>new Follow({ followerId: userId, followedId })\<close> and
  \<^verbatim>\<open>StoryView.create({ storyId: req.params.id, userId })\<close>.
\<close>

record like =
  like_postId :: oid
  like_userId :: oid

record follow =
  followerId :: oid
  followedId :: oid

record storyView =
  view_storyId :: oid
  view_userId :: oid

text \<open>
  The store shared by all handlers. The last two fields are the media delegate: the
  media ids it hosts, and the ids \<^verbatim>\<open>cloudinary.uploader.destroy\<close> was called with, in order.
\<close>

record world =
  stories :: "story list"
  posts :: "post list"
  follows :: "follow list"
  likes :: "like list"
  storyViews :: "storyView list"
  notifications :: "notification list"
  hosted :: "string list"
  destroyCalls :: "string list"

subsection \<open>Queries\<close>

text \<open>
  The conditions the handlers put into a Story filter: \<^verbatim>\<open>userId: u\<close>,
  \<^verbatim>\<open>userId: { $in: us }\<close>, \<^verbatim>\<open>isActive: b\<close>, \<^verbatim>\<open>expiresAt: { $gt: t }\<close> and
  \<^verbatim>\<open>expiresAt: { $lte: t }\<close>. A filter is the conjunction of its conditions.
\<close>

datatype story_cond =
    UserIdEq oid
  | UserIdIn "oid list"
  | IsActiveEq bool
  | ExpiresAtGt date
  | ExpiresAtLte date

fun story_matches :: "story_cond \<Rightarrow> story \<Rightarrow> bool" where
  "story_matches (UserIdEq u) s = (userId s = u)"
| "story_matches (UserIdIn us) s = (userId s \<in> set us)"
| "story_matches (IsActiveEq b) s = (isActive s = b)"
| "story_matches (ExpiresAtGt t) s = (t < expiresAt s)"
| "story_matches (ExpiresAtLte t) s = (expiresAt s \<le> t)"

definition Story_find :: "story_cond list \<Rightarrow> story list \<Rightarrow> story list" where
  "Story_find q xs = filter (\<lambda>s. list_all (\<lambda>c. story_matches c s) q) xs"

definition Story_updateMany ::
  "story_cond list \<Rightarrow> (story \<Rightarrow> story) \<Rightarrow> story list \<Rightarrow> story list" where
  "Story_updateMany q upd xs =
     map (\<lambda>s. if list_all (\<lambda>c. story_matches c s) q then upd s else s) xs"

text \<open>
  The lookups, once the texts of the request are cast. Each handler below makes the cast
  first and answers for the CastError itself.
\<close>

definition Story_findById :: "oid \<Rightarrow> story list \<Rightarrow> story option" where
  "Story_findById i xs = find (\<lambda>s. story_id s = i) xs"

definition Post_findById :: "oid \<Rightarrow> post list \<Rightarrow> post option" where
  "Post_findById i xs = find (\<lambda>p. post_id p = i) xs"

definition Like_findOne :: "oid \<Rightarrow> oid \<Rightarrow> like list \<Rightarrow> like option" where
  "Like_findOne p u xs = find (\<lambda>l. like_postId l = p \<and> like_userId l = u) xs"

definition Follow_findOne :: "oid \<Rightarrow> oid \<Rightarrow> follow list \<Rightarrow> follow option" where
  "Follow_findOne a b xs = find (\<lambda>f. followerId f = a \<and> followedId f = b) xs"

text \<open>\<^verbatim>\<open>doc.remove()\<close> deletes one document, the first whose \<^verbatim>\<open>_id\<close> is the document's.\<close>

fun delete_one :: "('a \<Rightarrow> bool) \<Rightarrow> 'a list \<Rightarrow> 'a list" where
  "delete_one P [] = []"
| "delete_one P (x # xs) = (if P x then xs else x # delete_one P xs)"

subsection \<open>Replies\<close>

text \<open>
  What a handler answers when it does not answer 200: \<open>NotFound\<close> is status 404,
  \<open>Forbidden\<close> 403, \<open>InternalError\<close> the 500 of the handler's \<^verbatim>\<open>catch\<close>. Status 400 is
  \<open>Conflict\<close> with the bodies \<^verbatim>\<open>Already liked\<close> and \<^verbatim>\<open>Already following\<close>, and
  \<open>InvalidArgument\<close> with \<^verbatim>\<open>Cannot follow yourself\<close> and with the validator's error array.
\<close>

datatype error = NotFound | Forbidden | Conflict | InvalidArgument | InternalError

fun http_status :: "error \<Rightarrow> nat" where
  "http_status NotFound = 404"
| "http_status Forbidden = 403"
| "http_status Conflict = 400"
| "http_status InvalidArgument = 400"
| "http_status InternalError = 500"

text \<open>
  A handler either writes a reply or lets an exception escape: what is thrown outside its
  \<^verbatim>\<open>try\<close> is not caught by it, and the handler writes no reply at all.
\<close>

datatype js_exception = ReferenceError string

datatype outcome = Replied "error + string" | Thrown js_exception

subsection \<open>The media delegate\<close>

text \<open>
  Modelled from the spec: \<^verbatim>\<open>cloudinary.uploader.destroy\<close> belongs to the external media
  service, which the spec describes as \<^verbatim>\<open>delete(mediaId)\<close>, failing with DeleteError if the
  id is unknown. A call is recorded in \<open>destroyCalls\<close> whether it fails or not; a call
  that succeeds releases the media.
\<close>

datatype delegate_error = DeleteError

definition destroy :: "string \<Rightarrow> world \<Rightarrow> (delegate_error + unit) \<times> world" where
  "destroy mid w =
     (let w1 = w\<lparr>destroyCalls := destroyCalls w @ [mid]\<rparr>
      in if mid \<in> set (hosted w1)
         then (Inr (), w1\<lparr>hosted := removeAll mid (hosted w1)\<rparr>)
         else (Inl DeleteError, w1))"

section \<open>Story routes\<close>

text \<open>
  \<^verbatim>\<open>GET /api/stories/:userId\<close> and \<^verbatim>\<open>GET /api/stories/feed\<close>. Both answer with the stories
  their filter selects; \<^verbatim>\<open>populate\<close> only decorates each story with its owner's name and
  picture and is left out. Neither writes to the store. The first takes the owner from
  the path, a text that \<^verbatim>\<open>Story.find\<close> casts; the second takes the viewer from the token.
\<close>

definition userStories :: "string \<Rightarrow> date \<Rightarrow> world \<Rightarrow> error + story list" where
  "userStories userIdParam now w =
     (case castObjectId userIdParam of
        None \<Rightarrow> Inl InternalError
      | Some u \<Rightarrow>
          Inr (Story_find [UserIdEq u, IsActiveEq True, ExpiresAtGt now] (stories w)))"

definition storiesFeed :: "oid \<Rightarrow> date \<Rightarrow> world \<Rightarrow> error + story list" where
  "storiesFeed uid now w =
     (let fs = filter (\<lambda>f. followerId f = uid) (follows w);
          followedIds = map followedId fs
      in Inr (Story_find [UserIdIn followedIds, IsActiveEq True, ExpiresAtGt now] (stories w)))"

text \<open>
  \<^verbatim>\<open>POST /api/stories/:id/view\<close>. \<^verbatim>\<open>Story.findById(req.params.id)\<close> casts the text of the
  path. The guard \<^verbatim>\<open>!story || !story.isActive || story.expiresAt < new Date()\<close> is
  evaluated left to right. The notification's \<^verbatim>\<open>createdAt\<close> defaults to the time of the
  request.
\<close>

definition recordView :: "string \<Rightarrow> oid \<Rightarrow> date \<Rightarrow> world \<Rightarrow> (error + string) \<times> world" where
  "recordView idParam uid now w =
     (case castObjectId idParam of
        None \<Rightarrow> (Inl InternalError, w)
      | Some sid \<Rightarrow>
          (case Story_findById sid (stories w) of
             None \<Rightarrow> (Inl NotFound, w)
           | Some st \<Rightarrow>
               if \<not> isActive st then (Inl NotFound, w)
               else if expiresAt st < now then (Inl NotFound, w)
               else
                 let w1 = w\<lparr>storyViews := storyViews w @
                            [\<lparr>view_storyId = sid, view_userId = uid\<rparr>]\<rparr>;
                     w2 = w1\<lparr>notifications := notifications w1 @
                            [\<lparr>notif_userId = userId st, notif_type = STORY_VIEW,
                              fromUserId = uid, postId = None, storyId = Some sid,
                              notif_createdAt = now\<rparr>]\<rparr>
                 in (Inr ''View recorded'', w2)))"

text \<open>
  \<^verbatim>\<open>DELETE /api/stories/:id\<close>. The whole body is one \<^verbatim>\<open>try\<close>: when
  \<^verbatim>\<open>await cloudinary.uploader.destroy(story.mediaId)\<close> throws, control goes to the
  \<^verbatim>\<open>catch\<close>, which answers 500, and \<^verbatim>\<open>story.remove()\<close> is not reached. The owner check is
  \<^verbatim>\<open>story.userId.toString() !== userId\<close>.
\<close>

definition deleteStory :: "string \<Rightarrow> oid \<Rightarrow> world \<Rightarrow> (error + string) \<times> world" where
  "deleteStory idParam uid w =
     (case castObjectId idParam of
        None \<Rightarrow> (Inl InternalError, w)
      | Some sid \<Rightarrow>
          (case Story_findById sid (stories w) of
             None \<Rightarrow> (Inl NotFound, w)
           | Some st \<Rightarrow>
               if toString (userId st) \<noteq> toString uid then (Inl Forbidden, w)
               else
                 (case destroy (mediaId st) w of
                    (Inl DeleteError, w1) \<Rightarrow> (Inl InternalError, w1)
                  | (Inr _, w1) \<Rightarrow>
                      (Inr ''Story deleted'',
                       w1\<lparr>stories :=
                            delete_one (\<lambda>s. story_id s = story_id st) (stories w1)\<rparr>))))"

section \<open>Post routes\<close>

text \<open>\<^verbatim>\<open>DELETE /api/posts/:id\<close>, written as the story's.\<close>

definition deletePost :: "string \<Rightarrow> oid \<Rightarrow> world \<Rightarrow> (error + string) \<times> world" where
  "deletePost idParam uid w =
     (case castObjectId idParam of
        None \<Rightarrow> (Inl InternalError, w)
      | Some pid \<Rightarrow>
          (case Post_findById pid (posts w) of
             None \<Rightarrow> (Inl NotFound, w)
           | Some p \<Rightarrow>
               if toString (post_userId p) \<noteq> toString uid then (Inl Forbidden, w)
               else
                 (case destroy (post_mediaId p) w of
                    (Inl DeleteError, w1) \<Rightarrow> (Inl InternalError, w1)
                  | (Inr _, w1) \<Rightarrow>
                      (Inr ''Post deleted'',
                       w1\<lparr>posts := delete_one (\<lambda>q. post_id q = post_id p) (posts w1)\<rparr>))))"

section \<open>Interaction routes\<close>

text \<open>
  Each handler of \<^verbatim>\<open>interactions.js\<close> begins, before its \<^verbatim>\<open>try\<close>, with
  \<^verbatim>\<open>const errors = validationResult(req)\<close>. The name \<^verbatim>\<open>validationResult\<close> is looked up in
  the module's scope when the statement runs. The module binds \<^verbatim>\<open>express\<close>, \<^verbatim>\<open>body\<close>,
  \<^verbatim>\<open>authenticate\<close>, \<^verbatim>\<open>Like\<close>, \<^verbatim>\<open>Comment\<close>, \<^verbatim>\<open>Follow\<close>, \<^verbatim>\<open>Notification\<close>, \<^verbatim>\<open>Post\<close> and
  \<^verbatim>\<open>router\<close>: its line 2 is \<^verbatim>\<open>const { body } = require('express-validator')\<close>, where
  \<^verbatim>\<open>auth.js\<close> has \<^verbatim>\<open>const { body, validationResult } = require('express-validator')\<close>.
  So the lookup finds nothing and the statement throws a ReferenceError, outside the
  \<^verbatim>\<open>try\<close>.

  The handlers are written over the binding of the name: \<open>None\<close> when the scope has
  none, \<open>Some v\<close> when it is bound to a function \<open>v\<close> from the validated body field to
  the validator's error array.
\<close>

definition validationResult_in_interactions :: "(string \<Rightarrow> string list) option" where
  "validationResult_in_interactions = None"

text \<open>
  \<^verbatim>\<open>POST /api/interactions/like\<close>. \<^verbatim>\<open>Like.findOne({ postId, userId })\<close> casts the text of
  the body. The Like is saved before the post is looked up. When
  \<^verbatim>\<open>Post.findById(postId)\<close> gives \<^verbatim>\<open>null\<close>, reading \<^verbatim>\<open>post.userId\<close> throws a TypeError,
  which the \<^verbatim>\<open>catch\<close> answers with 500.
\<close>

definition like_handler ::
  "(string \<Rightarrow> string list) option \<Rightarrow> string \<Rightarrow> oid \<Rightarrow> date \<Rightarrow> world \<Rightarrow> outcome \<times> world" where
  "like_handler binding postIdText uid now w =
     (case binding of
        None \<Rightarrow> (Thrown (ReferenceError ''validationResult''), w)
      | Some validationResult \<Rightarrow>
          if validationResult postIdText \<noteq> [] then (Replied (Inl InvalidArgument), w)
          else
            (case castObjectId postIdText of
               None \<Rightarrow> (Replied (Inl InternalError), w)
             | Some pid \<Rightarrow>
                 (case Like_findOne pid uid (likes w) of
                    Some existingLike \<Rightarrow> (Replied (Inl Conflict), w)
                  | None \<Rightarrow>
                      let w1 = w\<lparr>likes := likes w @
                                 [\<lparr>like_postId = pid, like_userId = uid\<rparr>]\<rparr>
                      in (case Post_findById pid (posts w1) of
                            None \<Rightarrow> (Replied (Inl InternalError), w1)
                          | Some p \<Rightarrow>
                              (Replied (Inr ''Post liked''),
                               w1\<lparr>notifications := notifications w1 @
                                   [\<lparr>notif_userId = post_userId p, notif_type = LIKE,
                                     fromUserId = uid, postId = Some pid, storyId = None,
                                     notif_createdAt = now\<rparr>]\<rparr>)))))"

definition likePost :: "string \<Rightarrow> oid \<Rightarrow> date \<Rightarrow> world \<Rightarrow> outcome \<times> world" where
  "likePost postIdText uid now w =
     like_handler validationResult_in_interactions postIdText uid now w"

text \<open>
  \<^verbatim>\<open>POST /api/interactions/follow\<close>. The self-follow check \<^verbatim>\<open>userId === followedId\<close>
  compares texts; \<^verbatim>\<open>Follow.findOne\<close>, the new Follow and the notification take the
  ObjectId the text is cast to.
\<close>

definition follow_handler ::
  "(string \<Rightarrow> string list) option \<Rightarrow> string \<Rightarrow> oid \<Rightarrow> date \<Rightarrow> world \<Rightarrow> outcome \<times> world" where
  "follow_handler binding followedIdText uid now w =
     (case binding of
        None \<Rightarrow> (Thrown (ReferenceError ''validationResult''), w)
      | Some validationResult \<Rightarrow>
          if validationResult followedIdText \<noteq> [] then (Replied (Inl InvalidArgument), w)
          else if toString uid = followedIdText then (Replied (Inl InvalidArgument), w)
          else
            (case castObjectId followedIdText of
               None \<Rightarrow> (Replied (Inl InternalError), w)
             | Some fid \<Rightarrow>
                 (case Follow_findOne uid fid (follows w) of
                    Some existingFollow \<Rightarrow> (Replied (Inl Conflict), w)
                  | None \<Rightarrow>
                      let w1 = w\<lparr>follows := follows w @
                                 [\<lparr>followerId = uid, followedId = fid\<rparr>]\<rparr>;
                          w2 = w1\<lparr>notifications := notifications w1 @
                                 [\<lparr>notif_userId = fid, notif_type = FOLLOW, fromUserId = uid,
                                   postId = None, storyId = None, notif_createdAt = now\<rparr>]\<rparr>
                      in (Replied (Inr ''User followed''), w2))))"

definition followUser :: "string \<Rightarrow> oid \<Rightarrow> date \<Rightarrow> world \<Rightarrow> outcome \<times> world" where
  "followUser followedIdText uid now w =
     follow_handler validationResult_in_interactions followedIdText uid now w"

section \<open>The story expiration job\<close>

text \<open>
  The daily job: \<^verbatim>\<open>Story.updateMany({ expiresAt: { $lte: new Date() } }, { isActive: false })\<close>.
\<close>

definition sweepExpired :: "date \<Rightarrow> world \<Rightarrow> world" where
  "sweepExpired now w =
     w\<lparr>stories := Story_updateMany [ExpiresAtLte now] (\<lambda>s. s\<lparr>isActive := False\<rparr>) (stories w)\<rparr>"

section \<open>Example stores\<close>

definition alice :: oid where
  "alice = ObjectId ''aaaaaaaaaaaaaaaaaaaaaaaa''"

definition bob :: oid where
  "bob = ObjectId ''bbbbbbbbbbbbbbbbbbbbbbbb''"

definition carol :: oid where
  "carol = ObjectId ''cccccccccccccccccccccccc''"

definition sid1 :: oid where
  "sid1 = ObjectId ''111111111111111111111111''"

definition sid2 :: oid where
  "sid2 = ObjectId ''222222222222222222222222''"

definition pid1 :: oid where
  "pid1 = ObjectId ''333333333333333333333333''"

text \<open>An id that no document of the example stores has.\<close>

definition nobody :: oid where
  "nobody = ObjectId ''999999999999999999999999''"

definition story1 :: story where
  "story1 = \<lparr>story_id = sid1, userId = bob, mediaUrl = ''https://media/m1'',
     mediaId = ''m1'', caption = None, createdAt = 0, expiresAt = 86400000,
     isActive = True\<rparr>"

definition story2 :: story where
  "story2 = \<lparr>story_id = sid2, userId = carol, mediaUrl = ''https://media/m3'',
     mediaId = ''m3'', caption = None, createdAt = 0, expiresAt = 86400000,
     isActive = True\<rparr>"

definition post1 :: post where
  "post1 = \<lparr>post_id = pid1, post_userId = bob, post_mediaUrl = ''https://media/m2'',
     post_mediaId = ''m2'', post_caption = None, hashtags = [], post_createdAt = 0\<rparr>"

text \<open>Alice follows Bob, who has one story and one post, both with hosted media.\<close>

definition world1 :: world where
  "world1 = \<lparr>stories = [story1], posts = [post1],
     follows = [\<lparr>followerId = alice, followedId = bob\<rparr>], likes = [],
     storyViews = [], notifications = [], hosted = [''m1'', ''m2''], destroyCalls = []\<rparr>"

text \<open>The same store when the media service no longer knows the two media ids.\<close>

definition world2 :: world where
  "world2 = world1\<lparr>hosted := []\<rparr>"

text \<open>A store where Bob's story is kept after Carol's.\<close>

definition world3 :: world where
  "world3 = world1\<lparr>stories := [story2, story1], hosted := [''m1'', ''m2'', ''m3'']\<rparr>"

section \<open>Properties\<close>

subsection \<open>Casting the texts of a request\<close>

lemma toString_eq_iff: "toString a = toString b \<longleftrightarrow> a = b"
  by (cases a; cases b) simp

lemma cast_examples:
  "castObjectId (toString alice) = Some alice"
  "castObjectId (toString bob) = Some bob"
  "castObjectId (toString carol) = Some carol"
  "castObjectId (toString sid1) = Some sid1"
  "castObjectId (toString sid2) = Some sid2"
  "castObjectId (toString pid1) = Some pid1"
  "castObjectId (toString nobody) = Some nobody"
  by (simp_all add: castObjectId_def isHexDigit_def toLowerHex_def alice_def bob_def carol_def
      sid1_def sid2_def pid1_def nobody_def)

lemma cast_upper_case:
  "castObjectId ''AAAAAAAAAAAAAAAAAAAAAAAA'' = Some alice"
  "toString alice \<noteq> ''AAAAAAAAAAAAAAAAAAAAAAAA''"
  by (simp_all add: castObjectId_def isHexDigit_def toLowerHex_def alice_def)

lemma cast_not_an_id: "castObjectId ''not-an-id'' = None"
  by (simp add: castObjectId_def)

lemma example_ids_distinct:
  "alice \<noteq> bob" "bob \<noteq> alice" "alice \<noteq> carol" "carol \<noteq> alice" "bob \<noteq> carol" "carol \<noteq> bob"
  "sid1 \<noteq> sid2" "sid2 \<noteq> sid1" "sid1 \<noteq> nobody" "sid2 \<noteq> nobody" "pid1 \<noteq> nobody"
  "nobody \<noteq> sid1" "nobody \<noteq> sid2" "nobody \<noteq> pid1"
  by (simp_all add: alice_def bob_def carol_def sid1_def sid2_def pid1_def nobody_def)

subsection \<open>Visibility of stories in reads\<close>


lemma userStories_CastError:
  "castObjectId p = None \<Longrightarrow> userStories p now w = Inl InternalError"
  by (simp add: userStories_def)


lemma followed_mem:
  "u \<in> set (map followedId (filter (\<lambda>f. followerId f = v) fs))
     \<longleftrightarrow> (\<exists>f \<in> set fs. followerId f = v \<and> followedId f = u)"
  by force

lemma storiesFeed_set:
  "storiesFeed uid now w =
     Inr (filter (\<lambda>s. (\<exists>f \<in> set (follows w). followerId f = uid \<and> followedId f = userId s)
                       \<and> isActive s \<and> now < expiresAt s) (stories w))"
  unfolding storiesFeed_def Story_find_def Let_def
  by (simp add: followed_mem del: set_map set_filter)



subsection \<open>The sweep\<close>

lemma sweepExpired_stories:
  "stories (sweepExpired now w) =
     map (\<lambda>s. if expiresAt s \<le> now then s\<lparr>isActive := False\<rparr> else s) (stories w)"
  by (simp add: sweepExpired_def Story_updateMany_def)

text \<open>
  C4. The sweep rewrites the Story collection in place: the story at each position keeps
  all its fields but \<open>isActive\<close>, which becomes false when \<open>expiresAt \<le> now\<close> and is left as
  it was otherwise. No row is deleted and no other collection is touched. Sweeping again
  with the same \<open>now\<close> changes nothing.
\<close>

theorem sweepExpired_exact_idempotent:
  "stories (sweepExpired now w) =
     map (\<lambda>s. if expiresAt s \<le> now then s\<lparr>isActive := False\<rparr> else s) (stories w)
   \<and> length (stories (sweepExpired now w)) = length (stories w)
   \<and> map story_id (stories (sweepExpired now w)) = map story_id (stories w)
   \<and> sweepExpired now w = w\<lparr>stories := stories (sweepExpired now w)\<rparr>
   \<and> sweepExpired now (sweepExpired now w) = sweepExpired now w"
proof -
  have idem: "sweepExpired now (sweepExpired now w) = sweepExpired now w"
    by (simp add: sweepExpired_def Story_updateMany_def)
  have ids: "map story_id (stories (sweepExpired now w)) = map story_id (stories w)"
    by (simp add: sweepExpired_stories)
  have frame: "sweepExpired now w = w\<lparr>stories := stories (sweepExpired now w)\<rparr>"
    by (simp add: sweepExpired_def)
  show ?thesis
    using idem ids frame sweepExpired_stories [of now w] by simp
qed

subsection \<open>Recording a view\<close>

lemma recordView_NotFound_iff:
  "fst (recordView idParam uid now w) = Inl NotFound \<longleftrightarrow>
     (case castObjectId idParam of
        None \<Rightarrow> False
      | Some sid \<Rightarrow>
          (case Story_findById sid (stories w) of
             None \<Rightarrow> True
           | Some st \<Rightarrow> isActive st = False \<or> expiresAt st < now))"
  by (simp add: recordView_def Let_def split: option.splits)

lemma recordView_cases:
  "castObjectId idParam = Some sid \<Longrightarrow>
   fst (recordView idParam uid now w) = Inl NotFound
   \<or> fst (recordView idParam uid now w) = Inr ''View recorded''"
  by (simp add: recordView_def Let_def split: option.splits)

lemma recordView_CastError:
  "castObjectId idParam = None \<Longrightarrow> recordView idParam uid now w = (Inl InternalError, w)"
  by (simp add: recordView_def)

text \<open>
  C2. The view route at the instant \<open>now = expiresAt\<close>: the story is active and expires at
  86400000; a view at 86400000 is answered 200 and writes its StoryView row and its
  notification, while the owner's story list and the follower's feed at the same instant
  do not return the story.
\<close>

theorem recordView_at_expiresAt:
  "castObjectId (toString sid1) = Some sid1
   \<and> Story_findById sid1 (stories world1) = Some story1
   \<and> isActive story1 = True \<and> expiresAt story1 = 86400000
   \<and> recordView (toString sid1) alice 86400000 world1 =
       (Inr ''View recorded'',
        world1\<lparr>storyViews := [\<lparr>view_storyId = sid1, view_userId = alice\<rparr>],
          notifications := [\<lparr>notif_userId = bob, notif_type = STORY_VIEW,
            fromUserId = alice, postId = None, storyId = Some sid1,
            notif_createdAt = 86400000\<rparr>]\<rparr>)
   \<and> userStories (toString bob) 86400000 world1 = Inr []
   \<and> storiesFeed alice 86400000 world1 = Inr []"
  by (simp add: recordView_def userStories_def storiesFeed_def Story_find_def
      Story_findById_def cast_examples world1_def story1_def Let_def)



subsection \<open>Deleting a story or a post\<close>

lemma find_delete_one:
  "distinct (map key xs) \<Longrightarrow> find (\<lambda>x. key x = k) (delete_one (\<lambda>x. key x = k) xs) = None"
proof (induction xs)
  case Nil
  then show ?case by simp
next
  case (Cons a xs)
  show ?case
  proof (cases "key a = k")
    case True
    with Cons.prems have "\<forall>x \<in> set xs. key x \<noteq> k" by (force simp: image_iff)
    with True show ?thesis by (simp add: find_None_iff)
  next
    case False
    with Cons show ?thesis by simp
  qed
qed

lemma delete_one_filter:
  "distinct (map key xs) \<Longrightarrow>
     delete_one (\<lambda>x. key x = k) xs = filter (\<lambda>x. key x \<noteq> k) xs"
proof (induction xs)
  case Nil
  then show ?case by simp
next
  case (Cons a xs)
  show ?case
  proof (cases "key a = k")
    case True
    with Cons.prems have "\<forall>x \<in> set xs. key x \<noteq> k" by (force simp: image_iff)
    then have "filter (\<lambda>x. key x \<noteq> k) xs = xs" by simp
    with True show ?thesis by simp
  next
    case False
    with Cons show ?thesis by simp
  qed
qed

lemma find_Some_key: "find (\<lambda>x. key x = k) xs = Some y \<Longrightarrow> key y = k \<and> y \<in> set xs"
  by (auto simp: find_Some_iff)

lemma destroy_fails_iff: "fst (destroy mid w) = Inl DeleteError \<longleftrightarrow> mid \<notin> set (hosted w)"
  by (simp add: destroy_def Let_def)

lemma destroy_hosted:
  "mid \<in> set (hosted w) \<Longrightarrow>
     destroy mid w = (Inr (), w\<lparr>destroyCalls := destroyCalls w @ [mid],
                               hosted := removeAll mid (hosted w)\<rparr>)"
  by (simp add: destroy_def Let_def)

lemma destroy_unknown:
  "mid \<notin> set (hosted w) \<Longrightarrow>
     destroy mid w = (Inl DeleteError, w\<lparr>destroyCalls := destroyCalls w @ [mid]\<rparr>)"
  by (simp add: destroy_def Let_def)

text \<open>
  A text that is not an ObjectId never reaches the lookup: \<^verbatim>\<open>findById\<close> throws the
  CastError and the \<^verbatim>\<open>catch\<close> answers 500.
\<close>

lemma deleteStory_CastError:
  "castObjectId idParam = None \<Longrightarrow> deleteStory idParam uid w = (Inl InternalError, w)"
  by (simp add: deleteStory_def)

lemma deleteStory_success:
  assumes "castObjectId idParam = Some sid" and "Story_findById sid (stories w) = Some st"
    and "uid = userId st" and "mediaId st \<in> set (hosted w)"
  shows "deleteStory idParam uid w =
       (Inr ''Story deleted'',
        w\<lparr>destroyCalls := destroyCalls w @ [mediaId st],
          hosted := removeAll (mediaId st) (hosted w),
          stories := delete_one (\<lambda>s. story_id s = sid) (stories w)\<rparr>)"
proof -
  have "story_id st = sid"
    using assms(2) find_Some_key [of story_id sid "stories w" st]
    by (simp add: Story_findById_def)
  then show ?thesis
    using assms by (simp add: deleteStory_def destroy_hosted)
qed

lemma deleteStory_Inr:
  assumes "deleteStory idParam uid w = (Inr m, w')"
  shows "\<exists>sid st. castObjectId idParam = Some sid \<and> Story_findById sid (stories w) = Some st
     \<and> uid = userId st \<and> mediaId st \<in> set (hosted w)"
proof -
  obtain sid where c: "castObjectId idParam = Some sid"
    using assms by (cases "castObjectId idParam") (simp_all add: deleteStory_def)
  obtain st where f: "Story_findById sid (stories w) = Some st"
    using assms c by (cases "Story_findById sid (stories w)") (simp_all add: deleteStory_def)
  have o: "uid = userId st"
    using assms c f by (auto simp: deleteStory_def toString_eq_iff split: if_splits)
  have h: "mediaId st \<in> set (hosted w)"
  proof (rule ccontr)
    assume "mediaId st \<notin> set (hosted w)"
    then show False
      using assms c f o by (simp add: deleteStory_def destroy_unknown)
  qed
  show ?thesis using c f o h by blast
qed

text \<open>
  C6. The story is named by the text of an ObjectId. Deleting a story that is not in the
  store is answered \<open>NotFound\<close>, and deleting another user's story \<open>Forbidden\<close>; both leave
  the store as it was. The owner's deletion of a story whose media the delegate hosts
  is answered 200: the delegate's delete is called with the story's \<open>mediaId\<close> and
  releases it, and the story's document is removed, all else unchanged. Conversely a
  deletion is answered 200 only for the owner of a stored story with hosted media, and
  then, in a store whose stories have distinct ids, the story is gone: \<open>findById\<close> no
  longer finds it, no filter selects it, and every other story is still there, in order.
\<close>

theorem deleteStory_spec:
  "(castObjectId idParam = Some sid \<and> Story_findById sid (stories w) = None \<longrightarrow>
      deleteStory idParam uid w = (Inl NotFound, w))
   \<and> (castObjectId idParam = Some sid \<and> Story_findById sid (stories w) = Some st
        \<and> uid \<noteq> userId st \<longrightarrow>
      deleteStory idParam uid w = (Inl Forbidden, w))
   \<and> (castObjectId idParam = Some sid \<and> Story_findById sid (stories w) = Some st
        \<and> uid = userId st \<and> mediaId st \<in> set (hosted w) \<longrightarrow>
      deleteStory idParam uid w =
        (Inr ''Story deleted'',
         w\<lparr>destroyCalls := destroyCalls w @ [mediaId st],
           hosted := removeAll (mediaId st) (hosted w),
           stories := delete_one (\<lambda>s. story_id s = sid) (stories w)\<rparr>))
   \<and> (distinct (map story_id (stories w)) \<and> deleteStory idParam uid w = (Inr m, w') \<longrightarrow>
        (\<exists>i s. castObjectId idParam = Some i \<and> Story_findById i (stories w) = Some s
           \<and> userId s = uid \<and> mediaId s \<in> set (hosted w)
           \<and> destroyCalls w' = destroyCalls w @ [mediaId s]
           \<and> mediaId s \<notin> set (hosted w')
           \<and> Story_findById i (stories w') = None
           \<and> stories w' = filter (\<lambda>x. story_id x \<noteq> i) (stories w)
           \<and> (\<forall>q. \<forall>x \<in> set (Story_find q (stories w')). story_id x \<noteq> i)))"
proof (intro conjI impI)
  assume "castObjectId idParam = Some sid \<and> Story_findById sid (stories w) = None"
  then show "deleteStory idParam uid w = (Inl NotFound, w)"
    by (simp add: deleteStory_def)
next
  assume "castObjectId idParam = Some sid \<and> Story_findById sid (stories w) = Some st
        \<and> uid \<noteq> userId st"
  then show "deleteStory idParam uid w = (Inl Forbidden, w)"
    by (auto simp: deleteStory_def toString_eq_iff)
next
  assume "castObjectId idParam = Some sid \<and> Story_findById sid (stories w) = Some st
        \<and> uid = userId st \<and> mediaId st \<in> set (hosted w)"
  then show "deleteStory idParam uid w =
        (Inr ''Story deleted'',
         w\<lparr>destroyCalls := destroyCalls w @ [mediaId st],
           hosted := removeAll (mediaId st) (hosted w),
           stories := delete_one (\<lambda>s. story_id s = sid) (stories w)\<rparr>)"
    using deleteStory_success by blast
next
  assume a: "distinct (map story_id (stories w)) \<and> deleteStory idParam uid w = (Inr m, w')"
  then obtain i s where c: "castObjectId idParam = Some i"
    and f: "Story_findById i (stories w) = Some s"
    and o: "uid = userId s" and h: "mediaId s \<in> set (hosted w)"
    using deleteStory_Inr [of idParam uid w m w'] by blast
  have w': "w' = w\<lparr>destroyCalls := destroyCalls w @ [mediaId s],
                   hosted := removeAll (mediaId s) (hosted w),
                   stories := delete_one (\<lambda>x. story_id x = i) (stories w)\<rparr>"
    using a deleteStory_success [OF c f o h] by simp
  have st: "stories w' = filter (\<lambda>x. story_id x \<noteq> i) (stories w)"
    using a delete_one_filter [of story_id "stories w" i] by (simp add: w')
  have gone: "Story_findById i (stories w') = None"
    by (simp add: st Story_findById_def find_None_iff)
  have q: "\<forall>q. \<forall>x \<in> set (Story_find q (stories w')). story_id x \<noteq> i"
    by (simp add: st Story_find_def)
  have calls: "destroyCalls w' = destroyCalls w @ [mediaId s]"
    and rel: "mediaId s \<notin> set (hosted w')"
    by (simp_all add: w')
  show "\<exists>i s. castObjectId idParam = Some i \<and> Story_findById i (stories w) = Some s
           \<and> userId s = uid \<and> mediaId s \<in> set (hosted w)
           \<and> destroyCalls w' = destroyCalls w @ [mediaId s]
           \<and> mediaId s \<notin> set (hosted w')
           \<and> Story_findById i (stories w') = None
           \<and> stories w' = filter (\<lambda>x. story_id x \<noteq> i) (stories w)
           \<and> (\<forall>q. \<forall>x \<in> set (Story_find q (stories w')). story_id x \<noteq> i)"
    using c f o h calls rel gone st q by blast
qed

theorem deleteStory_spec_witness:
  "castObjectId (toString nobody) = Some nobody
   \<and> Story_findById nobody (stories world3) = None
   \<and> deleteStory (toString nobody) bob world3 = (Inl NotFound, world3)
   \<and> castObjectId (toString sid1) = Some sid1
   \<and> Story_findById sid1 (stories world3) = Some story1 \<and> alice \<noteq> userId story1
   \<and> deleteStory (toString sid1) alice world3 = (Inl Forbidden, world3)
   \<and> bob = userId story1 \<and> mediaId story1 \<in> set (hosted world3)
   \<and> stories world3 = [story2, story1]
   \<and> distinct (map story_id (stories world3))
   \<and> deleteStory (toString sid1) bob world3 =
       (Inr ''Story deleted'',
        world3\<lparr>destroyCalls := [''m1''], hosted := [''m2'', ''m3''], stories := [story2]\<rparr>)
   \<and> Story_findById sid1
       (stories (world3\<lparr>destroyCalls := [''m1''], hosted := [''m2'', ''m3''],
          stories := [story2]\<rparr>)) = None"
proof -
  have w3: "stories world3 = [story2, story1]" "hosted world3 = [''m1'', ''m2'', ''m3'']"
    "destroyCalls world3 = []"
    by (simp_all add: world3_def world1_def)
  have ids: "story_id story1 = sid1" "story_id story2 = sid2" "userId story1 = bob"
    "mediaId story1 = ''m1''"
    by (simp_all add: story1_def story2_def)
  have nf: "castObjectId (toString nobody) = Some nobody
      \<and> Story_findById nobody (stories world3) = None"
    by (simp add: cast_examples Story_findById_def w3 ids example_ids_distinct)
  have fb: "castObjectId (toString sid1) = Some sid1
      \<and> Story_findById sid1 (stories world3) = Some story1 \<and> alice \<noteq> userId story1"
    by (simp add: cast_examples Story_findById_def w3 ids example_ids_distinct)
  have ow: "castObjectId (toString sid1) = Some sid1
      \<and> Story_findById sid1 (stories world3) = Some story1
      \<and> bob = userId story1 \<and> mediaId story1 \<in> set (hosted world3)"
    by (simp add: cast_examples Story_findById_def w3 ids example_ids_distinct)
  have d: "distinct (map story_id (stories world3))"
    by (simp add: w3 ids example_ids_distinct)
  note c1 = deleteStory_spec [where idParam = "toString nobody" and sid = nobody
      and w = world3 and uid = bob, THEN conjunct1, rule_format]
  note c2 = deleteStory_spec [where idParam = "toString sid1" and sid = sid1
      and w = world3 and st = story1 and uid = alice,
      THEN conjunct2, THEN conjunct1, rule_format]
  note c3 = deleteStory_spec [where idParam = "toString sid1" and sid = sid1
      and w = world3 and st = story1 and uid = bob,
      THEN conjunct2, THEN conjunct2, THEN conjunct1, rule_format]
  note c4 = deleteStory_spec [where idParam = "toString sid1" and w = world3
      and uid = bob and m = "''Story deleted''"
      and w' = "world3\<lparr>destroyCalls := [''m1''], hosted := [''m2'', ''m3''],
          stories := [story2]\<rparr>",
      THEN conjunct2, THEN conjunct2, THEN conjunct2, rule_format]
  have r1: "deleteStory (toString nobody) bob world3 = (Inl NotFound, world3)"
    using nf by (rule c1)
  have r2: "deleteStory (toString sid1) alice world3 = (Inl Forbidden, world3)"
    using fb by (rule c2)
  have r3': "deleteStory (toString sid1) bob world3 =
        (Inr ''Story deleted'',
         world3\<lparr>destroyCalls := destroyCalls world3 @ [mediaId story1],
           hosted := removeAll (mediaId story1) (hosted world3),
           stories := delete_one (\<lambda>s. story_id s = sid1) (stories world3)\<rparr>)"
    using ow by (rule c3)
  have del: "delete_one (\<lambda>s. story_id s = sid1) [story2, story1] = [story2]"
    by (simp add: ids example_ids_distinct)
  have r3: "deleteStory (toString sid1) bob world3 =
       (Inr ''Story deleted'',
        world3\<lparr>destroyCalls := [''m1''], hosted := [''m2'', ''m3''], stories := [story2]\<rparr>)"
    unfolding r3' w3 ids del by simp
  from d r3 have "distinct (map story_id (stories world3))
      \<and> deleteStory (toString sid1) bob world3 =
       (Inr ''Story deleted'',
        world3\<lparr>destroyCalls := [''m1''], hosted := [''m2'', ''m3''], stories := [story2]\<rparr>)"
    by (rule conjI)
  then obtain i where i: "castObjectId (toString sid1) = Some i"
    and g: "Story_findById i
       (stories (world3\<lparr>destroyCalls := [''m1''], hosted := [''m2'', ''m3''],
          stories := [story2]\<rparr>)) = None"
    using c4 by blast
  from i have "i = sid1"
    by (simp add: cast_examples)
  with g have r4: "Story_findById sid1
       (stories (world3\<lparr>destroyCalls := [''m1''], hosted := [''m2'', ''m3''],
          stories := [story2]\<rparr>)) = None"
    by simp
  show ?thesis using nf fb ow d r1 r2 r3 r4 w3(1) by blast
qed

text \<open>
  An owner deletes a story, and a post, whose media the delegate does not know: the
  delegate's delete fails, the handler answers \<open>InternalError\<close>, and the story and the post
  are still in the store.
\<close>

theorem delete_media_failure_counterexample:
  "castObjectId (toString sid1) = Some sid1
   \<and> Story_findById sid1 (stories world2) = Some story1 \<and> userId story1 = bob
   \<and> fst (destroy (mediaId story1) world2) = Inl DeleteError
   \<and> deleteStory (toString sid1) bob world2
       = (Inl InternalError, world2\<lparr>destroyCalls := [''m1'']\<rparr>)
   \<and> Story_findById sid1 (stories (snd (deleteStory (toString sid1) bob world2))) = Some story1
   \<and> castObjectId (toString pid1) = Some pid1
   \<and> Post_findById pid1 (posts world2) = Some post1 \<and> post_userId post1 = bob
   \<and> fst (destroy (post_mediaId post1) world2) = Inl DeleteError
   \<and> deletePost (toString pid1) bob world2
       = (Inl InternalError, world2\<lparr>destroyCalls := [''m2'']\<rparr>)
   \<and> Post_findById pid1 (posts (snd (deletePost (toString pid1) bob world2))) = Some post1"
  by (simp add: deleteStory_def deletePost_def destroy_def Story_findById_def
      Post_findById_def cast_examples world2_def world1_def story1_def post1_def Let_def)

text \<open>
  C3, as the handlers have it. When the owner of a story (or of a post) asks for its
  deletion and the media delegate's delete fails, the request fails with it: the handler
  answers \<open>InternalError\<close>, only the delegate's call is recorded, and the story (or post)
  stays in the store, where \<open>findById\<close> still finds it.
\<close>

theorem delete_media_failure_fatal:
  "(castObjectId idParam = Some sid \<and> Story_findById sid (stories w) = Some st
      \<and> userId st = uid \<and> fst (destroy (mediaId st) w) = Inl DeleteError \<longrightarrow>
        deleteStory idParam uid w
          = (Inl InternalError, w\<lparr>destroyCalls := destroyCalls w @ [mediaId st]\<rparr>)
        \<and> stories (snd (deleteStory idParam uid w)) = stories w
        \<and> Story_findById sid (stories (snd (deleteStory idParam uid w))) = Some st)
   \<and> (castObjectId idParam' = Some pid \<and> Post_findById pid (posts w) = Some p
      \<and> post_userId p = uid \<and> fst (destroy (post_mediaId p) w) = Inl DeleteError \<longrightarrow>
        deletePost idParam' uid w
          = (Inl InternalError, w\<lparr>destroyCalls := destroyCalls w @ [post_mediaId p]\<rparr>)
        \<and> posts (snd (deletePost idParam' uid w)) = posts w
        \<and> Post_findById pid (posts (snd (deletePost idParam' uid w))) = Some p)"
proof (intro conjI impI)
  assume a: "castObjectId idParam = Some sid \<and> Story_findById sid (stories w) = Some st
      \<and> userId st = uid \<and> fst (destroy (mediaId st) w) = Inl DeleteError"
  then have no: "mediaId st \<notin> set (hosted w)"
    by (simp add: destroy_fails_iff)
  show r: "deleteStory idParam uid w =
      (Inl InternalError, w\<lparr>destroyCalls := destroyCalls w @ [mediaId st]\<rparr>)"
    using a no by (simp add: deleteStory_def destroy_unknown)
  show "stories (snd (deleteStory idParam uid w)) = stories w"
    by (simp add: r)
  show "Story_findById sid (stories (snd (deleteStory idParam uid w))) = Some st"
    using a by (simp add: r)
next
  assume a: "castObjectId idParam' = Some pid \<and> Post_findById pid (posts w) = Some p
      \<and> post_userId p = uid \<and> fst (destroy (post_mediaId p) w) = Inl DeleteError"
  then have no: "post_mediaId p \<notin> set (hosted w)"
    by (simp add: destroy_fails_iff)
  show r: "deletePost idParam' uid w =
      (Inl InternalError, w\<lparr>destroyCalls := destroyCalls w @ [post_mediaId p]\<rparr>)"
    using a no by (simp add: deletePost_def destroy_unknown)
  show "posts (snd (deletePost idParam' uid w)) = posts w"
    by (simp add: r)
  show "Post_findById pid (posts (snd (deletePost idParam' uid w))) = Some p"
    using a by (simp add: r)
qed

theorem delete_media_failure_fatal_witness:
  "castObjectId (toString sid1) = Some sid1
   \<and> Story_findById sid1 (stories world2) = Some story1 \<and> userId story1 = bob
   \<and> fst (destroy (mediaId story1) world2) = Inl DeleteError
   \<and> fst (deleteStory (toString sid1) bob world2) = Inl InternalError
   \<and> stories (snd (deleteStory (toString sid1) bob world2)) = [story1]
   \<and> castObjectId (toString pid1) = Some pid1
   \<and> Post_findById pid1 (posts world2) = Some post1 \<and> post_userId post1 = bob
   \<and> fst (destroy (post_mediaId post1) world2) = Inl DeleteError
   \<and> fst (deletePost (toString pid1) bob world2) = Inl InternalError
   \<and> posts (snd (deletePost (toString pid1) bob world2)) = [post1]"
proof -
  have s: "castObjectId (toString sid1) = Some sid1
      \<and> Story_findById sid1 (stories world2) = Some story1 \<and> userId story1 = bob
      \<and> fst (destroy (mediaId story1) world2) = Inl DeleteError"
    by (simp add: destroy_def Story_findById_def cast_examples world2_def world1_def
        story1_def Let_def)
  have p: "castObjectId (toString pid1) = Some pid1
      \<and> Post_findById pid1 (posts world2) = Some post1 \<and> post_userId post1 = bob
      \<and> fst (destroy (post_mediaId post1) world2) = Inl DeleteError"
    by (simp add: destroy_def Post_findById_def cast_examples world2_def world1_def
        post1_def Let_def)
  have ws: "stories world2 = [story1]" and wp: "posts world2 = [post1]"
    by (simp_all add: world2_def world1_def)
  note t = delete_media_failure_fatal [where idParam = "toString sid1" and sid = sid1
      and w = world2 and st = story1 and uid = bob and idParam' = "toString pid1"
      and pid = pid1 and p = post1]
  have r1: "fst (deleteStory (toString sid1) bob world2) = Inl InternalError
      \<and> stories (snd (deleteStory (toString sid1) bob world2)) = [story1]"
    using s t ws by simp
  have r2: "fst (deletePost (toString pid1) bob world2) = Inl InternalError
      \<and> posts (snd (deletePost (toString pid1) bob world2)) = [post1]"
    using p t wp by simp
  show ?thesis using s p r1 r2 by blast
qed

subsection \<open>The stories feed\<close>

text \<open>
  C7. The feed answers with exactly the stories of the store whose owner is the target of
  a follow edge of the viewer and whose \<open>isActive\<close> is true and \<open>expiresAt\<close> after \<open>now\<close>, in
  storage order. So every story it returns has a followed owner, and for a viewer with no
  follow edge the answer is the empty list, not an error.
\<close>

theorem storiesFeed_exact:
  "storiesFeed viewer now w =
     Inr (filter (\<lambda>s. (\<exists>f \<in> set (follows w). followerId f = viewer \<and> followedId f = userId s)
                       \<and> isActive s = True \<and> expiresAt s > now) (stories w))
   \<and> (\<forall>xs. storiesFeed viewer now w = Inr xs \<longrightarrow>
        (\<forall>s \<in> set xs. \<exists>f \<in> set (follows w). followerId f = viewer \<and> followedId f = userId s))
   \<and> ((\<forall>f \<in> set (follows w). followerId f \<noteq> viewer) \<longrightarrow> storiesFeed viewer now w = Inr [])"
proof (intro conjI)
  show "storiesFeed viewer now w =
     Inr (filter (\<lambda>s. (\<exists>f \<in> set (follows w). followerId f = viewer \<and> followedId f = userId s)
                       \<and> isActive s = True \<and> expiresAt s > now) (stories w))"
    by (simp add: storiesFeed_set)
  show "\<forall>xs. storiesFeed viewer now w = Inr xs \<longrightarrow>
        (\<forall>s \<in> set xs. \<exists>f \<in> set (follows w). followerId f = viewer \<and> followedId f = userId s)"
    by (auto simp: storiesFeed_set)
  show "(\<forall>f \<in> set (follows w). followerId f \<noteq> viewer) \<longrightarrow> storiesFeed viewer now w = Inr []"
  proof
    assume n: "\<forall>f \<in> set (follows w). followerId f \<noteq> viewer"
    have e: "filter (\<lambda>s. (\<exists>f \<in> set (follows w). followerId f = viewer \<and> followedId f = userId s)
                       \<and> isActive s \<and> now < expiresAt s) (stories w) = []"
      by (rule filter_False) (use n in blast)
    show "storiesFeed viewer now w = Inr []"
      by (simp only: storiesFeed_set e)
  qed
qed

theorem storiesFeed_exact_witness:
  "storiesFeed alice 1000 world1 = Inr [story1]
   \<and> (\<exists>f \<in> set (follows world1). followerId f = alice \<and> followedId f = userId story1)
   \<and> bob \<notin> followerId ` set (follows world1)
   \<and> storiesFeed bob 1000 world1 = Inr []"
proof -
  have unfollowing: "bob \<notin> followerId ` set (follows world1)"
    by (simp add: world1_def example_ids_distinct)
  have no_edge: "\<forall>f \<in> set (follows world1). followerId f \<noteq> bob"
    by (simp add: world1_def example_ids_distinct)
  have run: "storiesFeed alice 1000 world1 = Inr [story1]"
    by (simp add: storiesFeed_set world1_def story1_def)
  note a = storiesFeed_exact [of alice 1000 world1, THEN conjunct2, THEN conjunct1]
  note b = storiesFeed_exact [of bob 1000 world1, THEN conjunct2, THEN conjunct2]
  have owner: "\<exists>f \<in> set (follows world1). followerId f = alice \<and> followedId f = userId story1"
    using a run by simp
  have none: "storiesFeed bob 1000 world1 = Inr []"
    using b no_edge by (rule mp)
  show ?thesis using unfollowing run owner none by (intro conjI)
qed

subsection \<open>The interaction handlers as the module runs them\<close>

text \<open>
  With the name unbound, each of the two handlers throws before it reads the request or
  the store: whatever the request, no reply is written and the store is left as it was.
\<close>

lemma likePost_ReferenceError:
  "likePost postIdText uid now w = (Thrown (ReferenceError ''validationResult''), w)"
  by (simp add: likePost_def like_handler_def validationResult_in_interactions_def)

lemma followUser_ReferenceError:
  "followUser followedIdText uid now w = (Thrown (ReferenceError ''validationResult''), w)"
  by (simp add: followUser_def follow_handler_def validationResult_in_interactions_def)

text \<open>
  C5. Like requests as the handler runs them. Alice likes Bob's post, which exists and
  which she has not liked: the handler throws the ReferenceError, and neither a Like nor
  a notification is written. With her Like already in the store the handler throws all
  the same, and \<open>Conflict\<close> is not what it answers.
\<close>

theorem like_request_throws:
  "Post_findById pid1 (posts world1) = Some post1
   \<and> Like_findOne pid1 alice (likes world1) = None
   \<and> likePost (toString pid1) alice 1000 world1
       = (Thrown (ReferenceError ''validationResult''), world1)
   \<and> likes (snd (likePost (toString pid1) alice 1000 world1)) = []
   \<and> notifications (snd (likePost (toString pid1) alice 1000 world1)) = []
   \<and> Like_findOne pid1 alice
       (likes (world1\<lparr>likes := [\<lparr>like_postId = pid1, like_userId = alice\<rparr>]\<rparr>))
       = Some \<lparr>like_postId = pid1, like_userId = alice\<rparr>
   \<and> likePost (toString pid1) alice 1000
       (world1\<lparr>likes := [\<lparr>like_postId = pid1, like_userId = alice\<rparr>]\<rparr>)
       = (Thrown (ReferenceError ''validationResult''),
          world1\<lparr>likes := [\<lparr>like_postId = pid1, like_userId = alice\<rparr>]\<rparr>)"
  by (simp add: likePost_ReferenceError Post_findById_def Like_findOne_def world1_def
      post1_def)

text \<open>
  C10. A like request for a post that is not in the store, by an actor with no Like for
  it, as the handler runs it: the handler throws the ReferenceError before
  \<^verbatim>\<open>like.save()\<close>, so no Like is written and the \<^verbatim>\<open>catch\<close> that answers 500 is never
  entered.
\<close>

theorem like_missing_post_throws:
  "castObjectId (toString nobody) = Some nobody
   \<and> Post_findById nobody (posts world1) = None
   \<and> Like_findOne nobody alice (likes world1) = None
   \<and> likePost (toString nobody) alice 1000 world1
       = (Thrown (ReferenceError ''validationResult''), world1)
   \<and> likes (snd (likePost (toString nobody) alice 1000 world1)) = []"
  by (simp add: likePost_ReferenceError cast_examples Post_findById_def Like_findOne_def
      world1_def post1_def example_ids_distinct)

text \<open>
  C8. Follow requests as the handler runs them. Bob follows himself, Alice follows Bob
  again, and Bob follows Alice for the first time: each time the handler throws the
  ReferenceError. It answers neither \<open>InvalidArgument\<close> nor \<open>Conflict\<close>, and the new edge
  and its notification are not written.
\<close>

theorem follow_request_throws:
  "followUser (toString bob) bob 1000 world1
       = (Thrown (ReferenceError ''validationResult''), world1)
   \<and> Follow_findOne alice bob (follows world1)
       = Some \<lparr>followerId = alice, followedId = bob\<rparr>
   \<and> followUser (toString bob) alice 1000 world1
       = (Thrown (ReferenceError ''validationResult''), world1)
   \<and> Follow_findOne bob alice (follows world1) = None
   \<and> followUser (toString alice) bob 1000 world1
       = (Thrown (ReferenceError ''validationResult''), world1)
   \<and> follows (snd (followUser (toString alice) bob 1000 world1))
       = [\<lparr>followerId = alice, followedId = bob\<rparr>]
   \<and> notifications (snd (followUser (toString alice) bob 1000 world1)) = []"
  by (simp add: followUser_ReferenceError Follow_findOne_def world1_def example_ids_distinct)

subsection \<open>The interaction handlers with the name bound\<close>

text \<open>
  What the bodies of the two handlers do once \<^verbatim>\<open>validationResult\<close> is bound, to a
  validator \<open>v\<close> that accepts the request. These lemmas are about
  \<open>like_handler (Some v)\<close> and \<open>follow_handler (Some v)\<close>, not about the module as it
  stands.
\<close>

lemma find_append_None: "find P xs = None \<Longrightarrow> find P (xs @ ys) = find P ys"
  by (induction xs) (auto split: if_splits)

lemma like_handler_conflict:
  assumes "v postIdText = []" and "castObjectId postIdText = Some pid"
    and "Like_findOne pid uid (likes w) = Some l"
  shows "like_handler (Some v) postIdText uid now w = (Replied (Inl Conflict), w)"
  using assms by (simp add: like_handler_def)

lemma like_handler_liked:
  assumes "v postIdText = []" and "castObjectId postIdText = Some pid"
    and "Like_findOne pid uid (likes w) = None" and "Post_findById pid (posts w) = Some p"
  shows "like_handler (Some v) postIdText uid now w =
      (Replied (Inr ''Post liked''),
       w\<lparr>likes := likes w @ [\<lparr>like_postId = pid, like_userId = uid\<rparr>],
         notifications := notifications w @
           [\<lparr>notif_userId = post_userId p, notif_type = LIKE, fromUserId = uid,
             postId = Some pid, storyId = None, notif_createdAt = now\<rparr>]\<rparr>)"
  using assms by (simp add: like_handler_def Let_def)

text \<open>
  The body does not test \<^verbatim>\<open>post\<close> for \<^verbatim>\<open>null\<close>, as \<^verbatim>\<open>GET /api/posts/:id\<close> does: for a
  post that is not in the store the Like is saved, and then the 500 is answered.
\<close>

lemma like_handler_missing_post:
  assumes "v postIdText = []" and "castObjectId postIdText = Some pid"
    and "Like_findOne pid uid (likes w) = None" and "Post_findById pid (posts w) = None"
  shows "like_handler (Some v) postIdText uid now w =
      (Replied (Inl InternalError),
       w\<lparr>likes := likes w @ [\<lparr>like_postId = pid, like_userId = uid\<rparr>]\<rparr>)"
  using assms by (simp add: like_handler_def Let_def)

lemma follow_handler_self:
  "follow_handler (Some v) (toString uid) uid now w = (Replied (Inl InvalidArgument), w)"
  by (simp add: follow_handler_def)

lemma follow_handler_conflict:
  assumes "v followedIdText = []" and "toString uid \<noteq> followedIdText"
    and "castObjectId followedIdText = Some fid"
    and "Follow_findOne uid fid (follows w) = Some e"
  shows "follow_handler (Some v) followedIdText uid now w = (Replied (Inl Conflict), w)"
  using assms by (simp add: follow_handler_def)

lemma follow_handler_followed:
  assumes "v followedIdText = []" and "toString uid \<noteq> followedIdText"
    and "castObjectId followedIdText = Some fid"
    and "Follow_findOne uid fid (follows w) = None"
  shows "follow_handler (Some v) followedIdText uid now w =
      (Replied (Inr ''User followed''),
       w\<lparr>follows := follows w @ [\<lparr>followerId = uid, followedId = fid\<rparr>],
         notifications := notifications w @
           [\<lparr>notif_userId = fid, notif_type = FOLLOW, fromUserId = uid,
             postId = None, storyId = None, notif_createdAt = now\<rparr>]\<rparr>)"
  using assms by (simp add: follow_handler_def Let_def)

text \<open>
  The self-follow check compares texts, the store ObjectIds: Alice's own id, spelled in
  upper case, is not the text of her id, and is cast to her id. The body then writes the
  edge from Alice to Alice.
\<close>

lemma follow_handler_self_in_upper_case:
  "follow_handler (Some (\<lambda>t. [])) ''AAAAAAAAAAAAAAAAAAAAAAAA'' alice 1000 world1 =
      (Replied (Inr ''User followed''),
       world1\<lparr>follows := [\<lparr>followerId = alice, followedId = bob\<rparr>,
                            \<lparr>followerId = alice, followedId = alice\<rparr>],
         notifications := [\<lparr>notif_userId = alice, notif_type = FOLLOW, fromUserId = alice,
           postId = None, storyId = None, notif_createdAt = 1000\<rparr>]\<rparr>)"
proof -
  have f: "Follow_findOne alice alice (follows world1) = None"
    by (simp add: Follow_findOne_def world1_def example_ids_distinct)
  have w: "follows world1 = [\<lparr>followerId = alice, followedId = bob\<rparr>]"
    "notifications world1 = []"
    by (simp_all add: world1_def)
  show ?thesis
    using follow_handler_followed [where v = "\<lambda>t. []"
        and followedIdText = "''AAAAAAAAAAAAAAAAAAAAAAAA''" and uid = alice and fid = alice
        and w = world1 and now = 1000, OF _ cast_upper_case(2) cast_upper_case(1) f]
    by (simp add: w)
qed

end
